theory Spec2Isabelle
  imports Complex_Main "HOL-Library.Option_ord" "HOL-Library.Multiset"
begin

section \<open>Python floats\<close>

text \<open>
  A Python \<open>float\<close> is an IEEE 754 binary64 number: \<open>Finite x\<close> is the finite double of
  value \<open>x\<close>, \<open>PInf\<close> and \<open>NInf\<close> are the two infinities, \<open>NaN\<close> is not-a-number. The two
  zeros are not told apart: \<open>Finite 0\<close> stands for both. An arithmetic operation takes the
  exact result and rounds it to the nearest double, a tie going to the double with the
  even mantissa (\<open>round_double\<close>): a double has 53 bits of mantissa, the doubles below
  \<open>2 ^ - 1022\<close> in magnitude are spaced \<open>2 ^ - 1074\<close> apart, and a result that reaches
  \<open>2 ^ 1024 - 2 ^ 970\<close> in magnitude, half a step beyond the largest double, is infinite.
\<close>

datatype double = Finite real | PInf | NInf | NaN

definition round_half_even :: "real \<Rightarrow> int" where
  "round_half_even x =
     (let f = \<lfloor>x\<rfloor>; d = x - of_int f
      in if d < 1 / 2 then f
         else if 1 / 2 < d then f + 1
         else if even f then f else f + 1)"

text \<open>The number of binary digits of a positive integer.\<close>

function bit_length :: "int \<Rightarrow> int" where
  "bit_length n = (if n \<le> 0 then 0 else bit_length (n div 2) + 1)"
  by pat_completeness auto

termination
  by (relation "measure nat") auto

declare bit_length.simps [simp del]

text \<open>For a positive \<open>x\<close>, the exponent \<open>e\<close> with \<open>2 ^ e \<le> x < 2 ^ (e + 1)\<close>.\<close>

definition ilog2 :: "real \<Rightarrow> int" where
  "ilog2 x =
     (if 1 \<le> x then bit_length \<lfloor>x\<rfloor> - 1
      else - bit_length (\<lceil>1 / x\<rceil> - 1))"

definition pow2 :: "int \<Rightarrow> real" where
  "pow2 k = (if 0 \<le> k then 2 ^ nat k else 1 / 2 ^ nat (- k))"

definition round_double :: "real \<Rightarrow> double" where
  "round_double x =
     (if x = 0 then Finite 0
      else if 2 ^ 1024 - 2 ^ 970 \<le> \<bar>x\<bar> then (if 0 < x then PInf else NInf)
      else (let q = max (ilog2 \<bar>x\<bar>) (- 1022) - 52
            in Finite (of_int (round_half_even (x / pow2 q)) * pow2 q)))"

text \<open>The product of an infinity, positive when \<open>pos\<close>, and a float.\<close>

definition inf_mul :: "bool \<Rightarrow> double \<Rightarrow> double" where
  "inf_mul pos d =
     (case d of
        Finite y \<Rightarrow> if y = 0 then NaN else if (0 < y) = pos then PInf else NInf
      | PInf \<Rightarrow> if pos then PInf else NInf
      | NInf \<Rightarrow> if pos then NInf else PInf
      | NaN \<Rightarrow> NaN)"

text \<open>\<open>a * b\<close> and \<open>a + b\<close> on floats. Neither raises: an overflow gives an infinity.\<close>

definition float_mul :: "double \<Rightarrow> double \<Rightarrow> double" where
  "float_mul a b =
     (case a of
        Finite x \<Rightarrow>
          (case b of
             Finite y \<Rightarrow> round_double (x * y)
           | PInf \<Rightarrow> inf_mul True a
           | NInf \<Rightarrow> inf_mul False a
           | NaN \<Rightarrow> NaN)
      | PInf \<Rightarrow> inf_mul True b
      | NInf \<Rightarrow> inf_mul False b
      | NaN \<Rightarrow> NaN)"

definition float_add :: "double \<Rightarrow> double \<Rightarrow> double" where
  "float_add a b =
     (case a of
        Finite x \<Rightarrow> (case b of Finite y \<Rightarrow> round_double (x + y) | _ \<Rightarrow> b)
      | PInf \<Rightarrow> (case b of NInf \<Rightarrow> NaN | NaN \<Rightarrow> NaN | _ \<Rightarrow> PInf)
      | NInf \<Rightarrow> (case b of PInf \<Rightarrow> NaN | NaN \<Rightarrow> NaN | _ \<Rightarrow> NInf)
      | NaN \<Rightarrow> NaN)"

text \<open>
  The conversion of an \<open>int\<close> to a float, as an operation on an \<open>int\<close> and a float makes
  it: the nearest double, and \<open>OverflowError\<close> (here \<open>None\<close>) when that is beyond the
  largest one.
\<close>

definition float_of_int :: "int \<Rightarrow> double option" where
  "float_of_int n = (case round_double (of_int n) of Finite y \<Rightarrow> Some (Finite y) | _ \<Rightarrow> None)"

text \<open>
  \<open>round(x, 2)\<close> on a float: the decimal with two places nearest to the exact value of
  \<open>x\<close>, a tie going to the even last digit, then the double nearest to that decimal. An
  infinity and a NaN are returned as they are.
\<close>

definition py_round2 :: "double \<Rightarrow> double" where
  "py_round2 d =
     (case d of
        Finite x \<Rightarrow> round_double (of_int (round_half_even (x * 100)) / 100)
      | _ \<Rightarrow> d)"

text \<open>The truth value of a float: zero is falsy, every other float is truthy.\<close>

definition float_bool :: "double \<Rightarrow> bool" where
  "float_bool d \<longleftrightarrow> d \<noteq> Finite 0"

definition isfinite :: "double \<Rightarrow> bool" where
  "isfinite d = (case d of Finite _ \<Rightarrow> True | _ \<Rightarrow> False)"

text \<open>The comparisons \<open><=\<close> and \<open><\<close> on floats: every comparison with a NaN is false.\<close>

instantiation double :: ord
begin

definition less_eq_double :: "double \<Rightarrow> double \<Rightarrow> bool" where
  "less_eq_double a b =
     (case a of
        Finite x \<Rightarrow> (case b of Finite y \<Rightarrow> x \<le> y | PInf \<Rightarrow> True | _ \<Rightarrow> False)
      | PInf \<Rightarrow> (case b of PInf \<Rightarrow> True | _ \<Rightarrow> False)
      | NInf \<Rightarrow> (case b of NaN \<Rightarrow> False | _ \<Rightarrow> True)
      | NaN \<Rightarrow> False)"

definition less_double :: "double \<Rightarrow> double \<Rightarrow> bool" where
  "less_double a b =
     (case a of
        Finite x \<Rightarrow> (case b of Finite y \<Rightarrow> x < y | PInf \<Rightarrow> True | _ \<Rightarrow> False)
      | PInf \<Rightarrow> False
      | NInf \<Rightarrow> (case b of Finite _ \<Rightarrow> True | PInf \<Rightarrow> True | _ \<Rightarrow> False)
      | NaN \<Rightarrow> False)"

instance ..

end

section \<open>FitTrack: domain records (schemas.py)\<close>

text \<open>
  Python's unbounded \<open>int\<close> is \<open>int\<close>, a \<open>float\<close> is a \<open>double\<close>. A \<open>datetime\<close> is a point
  on a linear time axis. \<open>Optional[t]\<close> is \<open>t option\<close>, with \<open>None\<close> for Python's \<open>None\<close>.
\<close>

type_synonym datetime = int

record user =
  username :: string
  full_name :: "string option"
  bio :: "string option"
  avatar_url :: "string option"
  city :: "string option"
  level :: "string option"
  goals :: "string list option"

record exercise_set =
  reps :: int
  weight :: double
  rest_sec :: "int option"
  rpe :: "double option"

record workout_exercise =
  name :: string
  sets :: "exercise_set list"

record workout =
  user_id :: string
  notes_ :: "string option"
  duration_min :: "int option"
  fatigue :: "int option"
  exercises :: "workout_exercise list"
  total_volume :: "double option"
  total_sets :: "int option"
  total_reps :: "int option"
  date :: "datetime option"
  likes :: "int option"
  media_url :: "string option"

record challenge =
  title :: string
  description :: "string option"
  metric :: string
  target :: double
  period :: string
  starts_at :: "datetime option"
  ends_at :: "datetime option"

section \<open>Metrics computation (main.py, compute_workout_metrics)\<close>

text \<open>An exception that the metrics computation or a handler lets escape.\<close>

datatype exception = OverflowError | NotImplementedError

text \<open>
  \<open>s.reps * (s.weight or 0)\<close>, as the float that \<open>total_volume +=\<close> adds. A weight of
  zero is falsy and is replaced by the integer 0: the product is then the integer 0, which
  the addition converts to the float zero. Any other weight is a float, and the product
  converts \<open>s.reps\<close> to a float first, which raises \<open>OverflowError\<close> when it is too large.
\<close>

definition volume_term :: "exercise_set \<Rightarrow> exception + double" where
  "volume_term s =
     (if float_bool (weight s)
      then (case float_of_int (reps s) of
              None \<Rightarrow> Inl OverflowError
            | Some r \<Rightarrow> Inr (float_mul r (weight s)))
      else Inr (Finite 0))"

text \<open>
  The inner loop over \<open>ex.sets\<close> and the outer loop over \<open>workout.exercises\<close>; the
  accumulator is \<open>(total_volume, total_sets, total_reps)\<close>. An exception ends the loops.
\<close>

fun sets_loop ::
  "double \<times> int \<times> int \<Rightarrow> exercise_set list \<Rightarrow> exception + double \<times> int \<times> int" where
  "sets_loop acc [] = Inr acc"
| "sets_loop (tv, ts, tr) (s # ss) =
     (case volume_term s of
        Inl e \<Rightarrow> Inl e
      | Inr v \<Rightarrow> sets_loop (float_add tv v, ts + 1, tr + reps s) ss)"

fun exercises_loop ::
  "double \<times> int \<times> int \<Rightarrow> workout_exercise list \<Rightarrow> exception + double \<times> int \<times> int" where
  "exercises_loop acc [] = Inr acc"
| "exercises_loop acc (ex # exs) =
     (case sets_loop acc (sets ex) of
        Inl e \<Rightarrow> Inl e
      | Inr acc' \<Rightarrow> exercises_loop acc' exs)"

text \<open>\<open>now\<close> is the value of \<open>datetime.now(timezone.utc)\<close> at the call.\<close>

definition compute_workout_metrics :: "datetime \<Rightarrow> workout \<Rightarrow> exception + workout" where
  "compute_workout_metrics now w =
     (case exercises_loop (Finite 0, 0, 0) (exercises w) of
        Inl e \<Rightarrow> Inl e
      | Inr (tv, ts, tr) \<Rightarrow>
          Inr (w\<lparr>total_volume := Some (py_round2 tv),
                 total_sets := Some ts,
                 total_reps := Some tr,
                 date := (if date w = None then Some now else date w),
                 likes := (if likes w = None then Some 0 else likes w)\<rparr>))"

text \<open>
  To state what the loops compute: every set of a workout, in the order the loops visit
  them; the sets whose repetitions the product can convert to a float; the float product
  of the repetitions and the weight of such a set.
\<close>

definition all_sets :: "workout \<Rightarrow> exercise_set list" where
  "all_sets w = concat (map sets (exercises w))"

definition in_float_range :: "exercise_set \<Rightarrow> bool" where
  "in_float_range s \<longleftrightarrow>
     \<not> float_bool (weight s) \<or> \<bar>real_of_int (reps s)\<bar> < 2 ^ 1024 - 2 ^ 970"

definition set_volume :: "exercise_set \<Rightarrow> double" where
  "set_volume s =
     (if float_bool (weight s)
      then float_mul (round_double (of_int (reps s))) (weight s)
      else Finite 0)"

section \<open>Field constraints (schemas.py) and request validation\<close>

text \<open>
  The \<open>ge\<close> and \<open>le\<close> bounds of the \<open>Field\<close> declarations. A bound on an optional field
  applies when the field is present. A NaN satisfies no bound; an infinite weight
  satisfies \<open>ge=0\<close>.
\<close>

definition valid_exercise_set :: "exercise_set \<Rightarrow> bool" where
  "valid_exercise_set s \<longleftrightarrow>
     1 \<le> reps s
     \<and> Finite 0 \<le> weight s
     \<and> (case rest_sec s of None \<Rightarrow> True | Some r \<Rightarrow> 0 \<le> r)
     \<and> (case rpe s of None \<Rightarrow> True | Some r \<Rightarrow> Finite 1 \<le> r \<and> r \<le> Finite 10)"

definition valid_workout_exercise :: "workout_exercise \<Rightarrow> bool" where
  "valid_workout_exercise ex \<longleftrightarrow> list_all valid_exercise_set (sets ex)"

definition valid_workout :: "workout \<Rightarrow> bool" where
  "valid_workout w \<longleftrightarrow>
     (case duration_min w of None \<Rightarrow> True | Some d \<Rightarrow> 0 \<le> d)
     \<and> (case fatigue w of None \<Rightarrow> True | Some f \<Rightarrow> 1 \<le> f \<and> f \<le> 10)
     \<and> list_all valid_workout_exercise (exercises w)
     \<and> (case total_volume w of None \<Rightarrow> True | Some v \<Rightarrow> Finite 0 \<le> v)
     \<and> (case total_sets w of None \<Rightarrow> True | Some n \<Rightarrow> 0 \<le> n)
     \<and> (case total_reps w of None \<Rightarrow> True | Some n \<Rightarrow> 0 \<le> n)
     \<and> (case likes w of None \<Rightarrow> True | Some n \<Rightarrow> 0 \<le> n)"

definition valid_challenge :: "challenge \<Rightarrow> bool" where
  "valid_challenge c \<longleftrightarrow> Finite 0 \<le> target c"

section \<open>The document store\<close>

text \<open>
  An \<open>ObjectId\<close> holds bytes, twelve when the storage assigns it; \<open>str\<close> of it gives them
  as hexadecimal digits in lower case, which is how \<open>Oid\<close> keeps them. \<open>ObjectId s\<close> is
  the constructor of the driver applied to a string: it takes a string of 24 characters
  that \<open>bytes.fromhex\<close> can read, and raises \<open>InvalidId\<close> (here \<open>None\<close>) on any other.
  \<open>bytes.fromhex\<close> skips the ASCII whitespace before a byte, and reads a byte as two
  adjacent hexadecimal digits. The server's \<open>$toObjectId\<close> converts a string of exactly 24
  hexadecimal digits and fails on every other one.
\<close>

datatype oid = Oid string

definition hex_digit :: "char \<Rightarrow> bool" where
  "hex_digit c \<longleftrightarrow> c \<in> set ''0123456789abcdefABCDEF''"

definition lower_hex :: "char \<Rightarrow> char" where
  "lower_hex c =
     (if c = CHR ''A'' then CHR ''a'' else if c = CHR ''B'' then CHR ''b''
      else if c = CHR ''C'' then CHR ''c'' else if c = CHR ''D'' then CHR ''d''
      else if c = CHR ''E'' then CHR ''e'' else if c = CHR ''F'' then CHR ''f'' else c)"

definition ascii_space :: "char \<Rightarrow> bool" where
  "ascii_space c \<longleftrightarrow>
     c \<in> set [CHR '' '', CHR 0x09, CHR 0x0A, CHR 0x0B, CHR 0x0C, CHR 0x0D]"

fun fromhex :: "string \<Rightarrow> string option" where
  "fromhex [] = Some []"
| "fromhex [c] = (if ascii_space c then Some [] else None)"
| "fromhex (c # d # cs) =
     (if ascii_space c then fromhex (d # cs)
      else if hex_digit c \<and> hex_digit d
      then (case fromhex cs of None \<Rightarrow> None | Some r \<Rightarrow> Some (lower_hex c # lower_hex d # r))
      else None)"

definition ObjectId :: "string \<Rightarrow> oid option" where
  "ObjectId s =
     (if length s = 24
      then (case fromhex s of None \<Rightarrow> None | Some h \<Rightarrow> Some (Oid h))
      else None)"

definition toObjectId :: "string \<Rightarrow> oid option" where
  "toObjectId s =
     (if length s = 24 \<and> list_all hex_digit s then Some (Oid (map lower_hex s)) else None)"

fun str_oid :: "oid \<Rightarrow> string" where
  "str_oid (Oid h) = h"

text \<open>
  The \<open>_id\<close> of a document is an \<open>ObjectId\<close> in the store and a string once a handler
  has run \<open>d["_id"] = str(d["_id"])\<close> on the copy it returns.
\<close>

datatype idval = ObjId oid | StrId string

fun str_id :: "idval \<Rightarrow> string" where
  "str_id (ObjId i) = str_oid i"
| "str_id (StrId s) = s"

record 'a doc =
  doc_id :: idval
  body :: 'a

definition stringify :: "'a doc \<Rightarrow> 'a doc" where
  "stringify d = d\<lparr>doc_id := StrId (str_id (doc_id d))\<rparr>"

text \<open>
  The database: one collection per record type, each a list of documents in insertion
  order. The handle \<open>db\<close> of a handler is \<open>None\<close> when no database is configured, and a
  database of the driver otherwise. The handlers other than \<open>create_user\<close> are modelled
  on a configured database, which they index without a test.
\<close>

record store =
  users :: "user doc list"
  workouts :: "workout doc list"
  challenges :: "challenge doc list"

text \<open>
  The truth value of the handle, as \<open>if db\<close> takes it: \<open>None\<close> is falsy, and a database
  of the driver does not implement the truth test, \<open>bool\<close> of it raises
  \<open>NotImplementedError\<close>. The driver asks for the comparison \<open>db is not None\<close> instead,
  which is what \<open>test_database\<close> of main.py does.
\<close>

definition db_bool :: "store option \<Rightarrow> exception + bool" where
  "db_bool db = (case db of None \<Rightarrow> Inr False | Some _ \<Rightarrow> Inl NotImplementedError)"

text \<open>
  What a handler answers with instead of its result: an \<open>HTTPException\<close> it raises, with
  status code and detail; the framework's rejection of a body that violates the schema
  (status 422), which comes before the handler is called; an exception that nothing
  catches (status 500).
\<close>

datatype error = HTTPException nat string | RequestValidationError | InternalServerError

text \<open>
  Modelled from the spec: \<open>create_document\<close> of database.py, which is not among the
  sources. The specification has every record "created via a single insert call
  returning a storage-assigned identifier". The identifier the storage assigns is an
  input of the model, \<open>new_id\<close>; the result is its string form and the collection with
  the new document at the end.
\<close>

definition create_document :: "'a doc list \<Rightarrow> oid \<Rightarrow> 'a \<Rightarrow> string \<times> 'a doc list" where
  "create_document coll new_id data =
     (str_oid new_id, coll @ [\<lparr>doc_id = ObjId new_id, body = data\<rparr>])"

text \<open>
  Modelled from the spec: \<open>get_documents\<close> of database.py, which is not among the
  sources. The specification has the list handlers "fetch up to \<open>limit\<close> records in
  storage-default order"; the filter the handlers pass is the empty one.
\<close>

definition get_documents :: "'a doc list \<Rightarrow> int \<Rightarrow> 'a doc list" where
  "get_documents coll limit = take (nat limit) coll"

text \<open>
  The driver's cursor, as \<open>get_feed\<close> uses it. \<open>limit(0)\<close> is documented as no limit; a
  negative limit is sent as its absolute value, to be answered in a single batch (the
  cap of a batch is not modelled). \<open>sort("date", -1)\<close> orders by the date, latest first,
  a missing date last; the order among equal dates is the store's choice, here the
  reverse of the insertion order.
\<close>

definition cursor_limit :: "int \<Rightarrow> 'a list \<Rightarrow> 'a list" where
  "cursor_limit n xs = (if n = 0 then xs else take (nat \<bar>n\<bar>) xs)"

definition sort_date_desc :: "workout doc list \<Rightarrow> workout doc list" where
  "sort_date_desc ds = rev (sort_key (\<lambda>d. date (body d)) ds)"

text \<open>
  \<open>find_one_and_update(filter, {"$inc": {"likes": 1}}, return_document=True)\<close>: the
  first document the filter matches gets its counter incremented, and is returned as
  updated. The outer \<open>None\<close> is the command failing (the driver raises
  \<open>OperationFailure\<close>): the filter cannot be evaluated, or the counter of the matched
  document is null. The inner \<open>None\<close> is no match.
\<close>

definition inc_likes :: "workout \<Rightarrow> workout option" where
  "inc_likes w = (case likes w of None \<Rightarrow> None | Some n \<Rightarrow> Some (w\<lparr>likes := Some (n + 1)\<rparr>))"

fun find_one_and_update ::
  "(workout doc \<Rightarrow> bool option) \<Rightarrow> workout doc list
     \<Rightarrow> (workout doc option \<times> workout doc list) option" where
  "find_one_and_update q [] = Some (None, [])"
| "find_one_and_update q (d # ds) =
     (case q d of
        None \<Rightarrow> None
      | Some True \<Rightarrow>
          (case inc_likes (body d) of
             None \<Rightarrow> None
           | Some w \<Rightarrow> Some (Some (d\<lparr>body := w\<rparr>), d\<lparr>body := w\<rparr> # ds))
      | Some False \<Rightarrow>
          (case find_one_and_update q ds of
             None \<Rightarrow> None
           | Some (r, ds') \<Rightarrow> Some (r, d # ds')))"

text \<open>The filter \<open>{"_id": i}\<close>.\<close>

definition id_is :: "oid \<Rightarrow> workout doc \<Rightarrow> bool option" where
  "id_is i d = Some (doc_id d = ObjId i)"

section \<open>Request handlers (main.py)\<close>

record create_user_request =
  req_username :: string
  req_full_name :: "string option"
  req_city :: "string option"

text \<open>\<open>User(username=..., full_name=..., city=...)\<close>: the other fields take their defaults.\<close>

definition User :: "string \<Rightarrow> string option \<Rightarrow> string option \<Rightarrow> user" where
  "User u f c =
     \<lparr>username = u, full_name = f, bio = None, avatar_url = None, city = c,
      level = Some ''beginner'', goals = Some []\<rparr>"

text \<open>\<open>db["user"].find_one({"username": u})\<close>.\<close>

definition find_one_username :: "user doc list \<Rightarrow> string \<Rightarrow> user doc option" where
  "find_one_username coll u = find (\<lambda>d. username (body d) = u) coll"

text \<open>
  Modelled from the spec: \<open>create_document\<close> of database.py, which is not among the
  sources, called when no database is configured. It has nowhere to insert, and the
  specification has a storage failure "surface as a generic server error".
\<close>

definition create_document_unconfigured :: error where
  "create_document_unconfigured = InternalServerError"

text \<open>
  \<open>create_user\<close>. The first statement is
  \<open>existing = db["user"].find_one({"username": payload.username}) if db else None\<close>: it
  takes the truth value of \<open>db\<close> first, and an exception of that test is not caught. With
  no database the search is skipped and \<open>create_document\<close> is called all the same.
\<close>

definition create_user ::
  "store option \<Rightarrow> oid \<Rightarrow> create_user_request
     \<Rightarrow> (error + string \<times> string) \<times> store option" where
  "create_user db new_id payload =
     (case db_bool db of
        Inl e \<Rightarrow> (Inl InternalServerError, db)
      | Inr truthy \<Rightarrow>
          (let existing =
                 (case db of
                    Some s \<Rightarrow>
                      if truthy then find_one_username (users s) (req_username payload)
                      else None
                  | None \<Rightarrow> None)
           in if existing \<noteq> None
              then (Inl (HTTPException 400 ''Username already exists''), db)
              else (let user = User (req_username payload) (req_full_name payload)
                                 (req_city payload)
                    in case db of
                         None \<Rightarrow> (Inl create_document_unconfigured, db)
                       | Some s \<Rightarrow>
                           (case create_document (users s) new_id user of
                              (user_id', coll) \<Rightarrow>
                                (Inr (user_id', username user), Some (s\<lparr>users := coll\<rparr>))))))"

definition list_users :: "store \<Rightarrow> int \<Rightarrow> user doc list" where
  "list_users s limit = map stringify (get_documents (users s) limit)"

text \<open>
  \<open>create_workout\<close> is the handler, called with a body that has passed validation: an
  exception of the metrics computation escapes it, and nothing is inserted.
  \<open>post_workouts\<close> is the route \<open>POST /api/workouts\<close> as the framework serves it: the body
  is validated against the schema first, and the handler runs only on a valid one; what
  the handler returns is then written as JSON, which fails for a \<open>total_volume\<close> that is
  infinite or a NaN, after the insert.
\<close>

definition create_workout ::
  "store \<Rightarrow> oid \<Rightarrow> datetime \<Rightarrow> workout \<Rightarrow> (error + string \<times> double option) \<times> store" where
  "create_workout s new_id now payload =
     (case compute_workout_metrics now payload of
        Inl e \<Rightarrow> (Inl InternalServerError, s)
      | Inr workout \<Rightarrow>
          (case create_document (workouts s) new_id workout of
             (workout_id, coll) \<Rightarrow>
               (Inr (workout_id, total_volume workout), s\<lparr>workouts := coll\<rparr>)))"

definition json_compliant :: "double option \<Rightarrow> bool" where
  "json_compliant v = (case v of None \<Rightarrow> True | Some d \<Rightarrow> isfinite d)"

definition post_workouts ::
  "store \<Rightarrow> oid \<Rightarrow> datetime \<Rightarrow> workout \<Rightarrow> (error + string \<times> double option) \<times> store" where
  "post_workouts s new_id now payload =
     (if valid_workout payload
      then (case create_workout s new_id now payload of
              (Inl e, s') \<Rightarrow> (Inl e, s')
            | (Inr (workout_id, tv), s') \<Rightarrow>
                if json_compliant tv then (Inr (workout_id, tv), s')
                else (Inl InternalServerError, s'))
      else (Inl RequestValidationError, s))"

text \<open>
  \<open>query = {"user_id": user} if user else {}\<close>: the empty string is falsy, as \<open>None\<close> is.
\<close>

definition feed_query :: "string option \<Rightarrow> workout doc \<Rightarrow> bool" where
  "feed_query user d =
     (case user of
        None \<Rightarrow> True
      | Some u \<Rightarrow> if u \<noteq> [] then user_id (body d) = u else True)"

definition get_feed :: "store \<Rightarrow> string option \<Rightarrow> int \<Rightarrow> workout doc list" where
  "get_feed s user limit =
     map stringify (cursor_limit limit (sort_date_desc (filter (feed_query user) (workouts s))))"

text \<open>
  \<open>like_workout\<close>. The first statement assigns \<open>None\<close> to \<open>doc\<close>, which is not used.
  The first \<open>find_one_and_update\<close> filters with \<open>$type: "objectId"\<close> on \<open>_id\<close> (the earlier
  \<open>$exists\<close> under the same key of the dict literal is overwritten) and with
  \<open>$expr: {$eq: ["$_id", {$toObjectId: workout_id}]}\<close>. The server reads a string that
  begins with \<open>$\<close> as a field path or a variable, and not as a literal: whether the
  expression then holds of a document, or fails, is the parameter \<open>ev\<close> of the model.
  Any other string is a constant, converted once by \<open>$toObjectId\<close>: the command fails
  when it is not 24 hexadecimal digits. This call stands outside the \<open>try\<close>, so a failure of it is not
  caught. The second call, made when the first returns nothing, stands inside
  \<open>try ... except Exception: pass\<close>: \<open>InvalidId\<close> from \<open>ObjectId(workout_id)\<close> and a
  failure of the command both leave \<open>updated\<close> empty.
\<close>

definition is_field_path :: "string \<Rightarrow> bool" where
  "is_field_path x = (case x of [] \<Rightarrow> False | c # _ \<Rightarrow> c = CHR ''$'')"

definition expr_filter ::
  "(string \<Rightarrow> workout doc \<Rightarrow> bool option) \<Rightarrow> string \<Rightarrow> (workout doc \<Rightarrow> bool option) option" where
  "expr_filter ev workout_id =
     (if is_field_path workout_id
      then Some (\<lambda>d. case doc_id d of ObjId _ \<Rightarrow> ev workout_id d | StrId _ \<Rightarrow> Some False)
      else (case toObjectId workout_id of None \<Rightarrow> None | Some i \<Rightarrow> Some (id_is i)))"

definition like_workout ::
  "(string \<Rightarrow> workout doc \<Rightarrow> bool option) \<Rightarrow> store \<Rightarrow> string
     \<Rightarrow> (error + workout doc) \<times> store" where
  "like_workout ev s workout_id =
     (case expr_filter ev workout_id of
        None \<Rightarrow> (Inl InternalServerError, s)
      | Some q \<Rightarrow>
          (case find_one_and_update q (workouts s) of
             None \<Rightarrow> (Inl InternalServerError, s)
           | Some (Some updated, coll) \<Rightarrow> (Inr (stringify updated), s\<lparr>workouts := coll\<rparr>)
           | Some (None, _) \<Rightarrow>
               (case ObjectId workout_id of
                  None \<Rightarrow> (Inl (HTTPException 404 ''Workout not found''), s)
                | Some i \<Rightarrow>
                    (case find_one_and_update (id_is i) (workouts s) of
                       Some (Some updated, coll) \<Rightarrow>
                         (Inr (stringify updated), s\<lparr>workouts := coll\<rparr>)
                     | _ \<Rightarrow> (Inl (HTTPException 404 ''Workout not found''), s)))))"

definition create_challenge :: "store \<Rightarrow> oid \<Rightarrow> challenge \<Rightarrow> string \<times> store" where
  "create_challenge s new_id ch =
     (case create_document (challenges s) new_id ch of
        (challenge_id, coll) \<Rightarrow> (challenge_id, s\<lparr>challenges := coll\<rparr>))"

definition list_challenges :: "store \<Rightarrow> int \<Rightarrow> challenge doc list" where
  "list_challenges s limit = map stringify (get_documents (challenges s) limit)"

text \<open>
  Concrete workouts: the example of the specification (two sets of bench press, five
  repetitions at 100 kg each, no derived field given); a workout whose only exercise has
  no set, with stale totals supplied by the client; one set of three repetitions at the
  double nearest to 0.165; one set of \<open>10 ^ 400\<close> repetitions at 1 kg; one set of no
  repetition.
\<close>

definition bench_workout :: workout where
  "bench_workout =
     \<lparr>user_id = ''alice'', notes_ = None, duration_min = None, fatigue = None,
      exercises = [\<lparr>name = ''Bench'',
                    sets = [\<lparr>reps = 5, weight = Finite 100, rest_sec = Some 90, rpe = None\<rparr>,
                            \<lparr>reps = 5, weight = Finite 100, rest_sec = Some 90, rpe = None\<rparr>]\<rparr>],
      total_volume = None, total_sets = None, total_reps = None,
      date = None, likes = None, media_url = None\<rparr>"

definition rest_day :: workout where
  "rest_day =
     \<lparr>user_id = ''bob'', notes_ = None, duration_min = None, fatigue = None,
      exercises = [\<lparr>name = ''Stretch'', sets = []\<rparr>],
      total_volume = Some (Finite 12), total_sets = Some 3, total_reps = Some 4,
      date = Some 1000, likes = Some 2, media_url = None\<rparr>"

definition curl_workout :: workout where
  "curl_workout =
     \<lparr>user_id = ''alice'', notes_ = None, duration_min = None, fatigue = None,
      exercises = [\<lparr>name = ''Wrist curl'',
                    sets = [\<lparr>reps = 3,
                             weight = Finite (5944751508129055 / 36028797018963968),
                             rest_sec = Some 90, rpe = None\<rparr>]\<rparr>],
      total_volume = None, total_sets = None, total_reps = None,
      date = Some 1000, likes = Some 0, media_url = None\<rparr>"

definition huge_reps_workout :: workout where
  "huge_reps_workout =
     \<lparr>user_id = ''alice'', notes_ = None, duration_min = None, fatigue = None,
      exercises = [\<lparr>name = ''Jump'',
                    sets = [\<lparr>reps = 10 ^ 400, weight = Finite 1, rest_sec = Some 90,
                             rpe = None\<rparr>]\<rparr>],
      total_volume = None, total_sets = None, total_reps = None,
      date = None, likes = Some 0, media_url = None\<rparr>"

definition zero_reps_workout :: workout where
  "zero_reps_workout =
     \<lparr>user_id = ''alice'', notes_ = None, duration_min = Some 30, fatigue = Some 5,
      exercises = [\<lparr>name = ''Squat'',
                    sets = [\<lparr>reps = 0, weight = Finite 60, rest_sec = Some 90, rpe = None\<rparr>]\<rparr>],
      total_volume = None, total_sets = None, total_reps = None,
      date = None, likes = Some 0, media_url = None\<rparr>"

text \<open>A store with nothing in it, identifiers, a request, and a store with one user.\<close>

definition empty_store :: store where
  "empty_store = \<lparr>users = [], workouts = [], challenges = []\<rparr>"

definition oid1 :: oid where
  "oid1 = Oid ''000000000000000000000001''"

definition oid2 :: oid where
  "oid2 = Oid ''000000000000000000000002''"

definition oid3 :: oid where
  "oid3 = Oid ''000000000000000000000003''"

definition alice_request :: create_user_request where
  "alice_request = \<lparr>req_username = ''alice'', req_full_name = None, req_city = Some ''Oslo''\<rparr>"

definition alice_store :: store where
  "alice_store =
     \<lparr>users = [\<lparr>doc_id = ObjId oid1, body = User ''alice'' None (Some ''Oslo'')\<rparr>],
      workouts = [], challenges = []\<rparr>"

section \<open>Properties of the floats and of the metrics computation\<close>

lemma float_of_int_eq:
  "float_of_int n =
     (if \<bar>real_of_int n\<bar> < 2 ^ 1024 - 2 ^ 970 then Some (round_double (of_int n)) else None)"
  by (simp add: float_of_int_def round_double_def Let_def)

lemma volume_term_eq:
  "volume_term s = (if in_float_range s then Inr (set_volume s) else Inl OverflowError)"
  by (simp add: volume_term_def in_float_range_def set_volume_def float_of_int_eq)

lemma sets_loop_eq:
  "sets_loop (tv, ts, tr) ss =
     (if list_all in_float_range ss
      then Inr (foldl float_add tv (map set_volume ss),
                ts + int (length ss),
                tr + (\<Sum>s\<leftarrow>ss. reps s))
      else Inl OverflowError)"
  by (induction ss arbitrary: tv ts tr) (simp_all add: volume_term_eq)

lemma exercises_loop_eq:
  "exercises_loop (tv, ts, tr) exs =
     (if list_all in_float_range (concat (map sets exs))
      then Inr (foldl float_add tv (map set_volume (concat (map sets exs))),
                ts + int (length (concat (map sets exs))),
                tr + (\<Sum>s\<leftarrow>concat (map sets exs). reps s))
      else Inl OverflowError)"
  by (induction exs arbitrary: tv ts tr) (simp_all add: sets_loop_eq)

lemma compute_workout_metrics_eq:
  "compute_workout_metrics now w =
     (if list_all in_float_range (all_sets w)
      then Inr (w\<lparr>total_volume :=
                     Some (py_round2 (foldl float_add (Finite 0) (map set_volume (all_sets w)))),
                   total_sets := Some (int (length (all_sets w))),
                   total_reps := Some (\<Sum>s\<leftarrow>all_sets w. reps s),
                   date := (if date w = None then Some now else date w),
                   likes := (if likes w = None then Some 0 else likes w)\<rparr>)
      else Inl OverflowError)"
  by (simp add: compute_workout_metrics_def exercises_loop_eq all_sets_def)

lemma compute_workout_metrics_Inr:
  assumes "compute_workout_metrics now w = Inr w'"
  shows "list_all in_float_range (all_sets w)"
    and "w' = w\<lparr>total_volume :=
                     Some (py_round2 (foldl float_add (Finite 0) (map set_volume (all_sets w)))),
                   total_sets := Some (int (length (all_sets w))),
                   total_reps := Some (\<Sum>s\<leftarrow>all_sets w. reps s),
                   date := (if date w = None then Some now else date w),
                   likes := (if likes w = None then Some 0 else likes w)\<rparr>"
proof -
  show c: "list_all in_float_range (all_sets w)"
    using assms unfolding compute_workout_metrics_eq [of now w]
    by (cases "list_all in_float_range (all_sets w)") simp_all
  show "w' = w\<lparr>total_volume :=
                     Some (py_round2 (foldl float_add (Finite 0) (map set_volume (all_sets w)))),
                   total_sets := Some (int (length (all_sets w))),
                   total_reps := Some (\<Sum>s\<leftarrow>all_sets w. reps s),
                   date := (if date w = None then Some now else date w),
                   likes := (if likes w = None then Some 0 else likes w)\<rparr>"
    using assms c unfolding compute_workout_metrics_eq [of now w]
    by simp
qed

lemmas float_defs =
  round_double_def ilog2_def pow2_def round_half_even_def bit_length.simps Let_def
  float_add_def float_mul_def float_bool_def py_round2_def

lemma in_float_range_bench:
  "in_float_range \<lparr>reps = 5, weight = Finite 100, rest_sec = Some 90, rpe = None\<rparr>"
  by (simp add: in_float_range_def)

lemma set_volume_bench:
  "set_volume \<lparr>reps = 5, weight = Finite 100, rest_sec = Some 90, rpe = None\<rparr> = Finite 500"
  by (simp add: set_volume_def float_defs)

lemma volume_bench:
  "py_round2 (float_add (float_add (Finite 0) (Finite 500)) (Finite 500)) = Finite 1000"
  by (simp add: float_defs)


lemma in_float_range_curl:
  "in_float_range \<lparr>reps = 3, weight = Finite (5944751508129055 / 36028797018963968),
                    rest_sec = Some 90, rpe = None\<rparr>"
  by (simp add: in_float_range_def)

lemma set_volume_curl:
  "set_volume \<lparr>reps = 3, weight = Finite (5944751508129055 / 36028797018963968),
                rest_sec = Some 90, rpe = None\<rparr>
     = Finite (4458563631096791 / 9007199254740992)"
  by (simp add: set_volume_def float_defs)

lemma volume_curl:
  "py_round2 (float_add (Finite 0) (Finite (4458563631096791 / 9007199254740992)))
     = Finite (2206763817411543 / 4503599627370496)"
  by (simp add: float_defs)


lemma not_in_float_range_huge:
  "\<not> in_float_range \<lparr>reps = 10 ^ 400, weight = Finite 1, rest_sec = Some 90, rpe = None\<rparr>"
  by (simp add: in_float_range_def float_bool_def)


lemma py_round2_0: "py_round2 (Finite 0) = Finite 0"
  by (simp add: py_round2_def round_double_def round_half_even_def)

lemma le_not_less_double: "a \<le> b \<Longrightarrow> \<not> b < (a :: double)"
  by (cases a; cases b) (simp_all add: less_eq_double_def less_double_def)

lemma all_sets_rest_day: "all_sets rest_day = []"
  by (simp add: all_sets_def rest_day_def)

lemma all_sets_bench_workout:
  "all_sets bench_workout =
     [\<lparr>reps = 5, weight = Finite 100, rest_sec = Some 90, rpe = None\<rparr>,
      \<lparr>reps = 5, weight = Finite 100, rest_sec = Some 90, rpe = None\<rparr>]"
  by (simp add: all_sets_def bench_workout_def)

lemma all_sets_curl_workout:
  "all_sets curl_workout =
     [\<lparr>reps = 3, weight = Finite (5944751508129055 / 36028797018963968),
       rest_sec = Some 90, rpe = None\<rparr>]"
  by (simp add: all_sets_def curl_workout_def)

lemma all_sets_huge_reps_workout:
  "all_sets huge_reps_workout =
     [\<lparr>reps = 10 ^ 400, weight = Finite 1, rest_sec = Some 90, rpe = None\<rparr>]"
  by (simp add: all_sets_def huge_reps_workout_def)

lemma valid_huge_reps_workout: "valid_workout huge_reps_workout"
  by (simp add: valid_workout_def valid_workout_exercise_def valid_exercise_set_def
      huge_reps_workout_def less_eq_double_def)

text \<open>
  Claim C1, as amended. The metrics computation returns for a workout in which the
  repetitions of every set of non-zero weight convert to a float, that is, are below
  \<open>2 ^ 1024 - 2 ^ 970\<close> in magnitude. It then returns the workout with \<open>total_sets\<close> the
  number of sets over all exercises, \<open>total_reps\<close> the sum of their repetitions and
  \<open>total_volume\<close> the float sum, accumulated from 0.0 in the order of the sets, of the
  float products of repetitions and weight, rounded once, at the end, to two decimals.
  With no exercise, or no set in any exercise, the three totals are 0. The date becomes
  the current time and the likes 0 where they were absent, and are kept where they were
  given. For any other workout the computation raises \<open>OverflowError\<close>.
\<close>

theorem metrics_totals:
  "(list_all in_float_range (all_sets w) \<longrightarrow>
      (\<exists>w'. compute_workout_metrics now w = Inr w'
         \<and> total_sets w' = Some (int (length (all_sets w)))
         \<and> total_reps w' = Some (\<Sum>s\<leftarrow>all_sets w. reps s)
         \<and> total_volume w'
             = Some (py_round2 (foldl float_add (Finite 0) (map set_volume (all_sets w))))
         \<and> (exercises w = [] \<or> all_sets w = [] \<longrightarrow>
              total_sets w' = Some 0 \<and> total_reps w' = Some 0
              \<and> total_volume w' = Some (Finite 0))
         \<and> date w' = Some (case date w of None \<Rightarrow> now | Some d \<Rightarrow> d)
         \<and> likes w' = Some (case likes w of None \<Rightarrow> 0 | Some l \<Rightarrow> l)
         \<and> exercises w' = exercises w \<and> user_id w' = user_id w))
   \<and> (\<not> list_all in_float_range (all_sets w) \<longrightarrow>
        compute_workout_metrics now w = Inl OverflowError)"
proof (intro conjI impI)
  assume r: "list_all in_float_range (all_sets w)"
  have e: "exercises w = [] \<Longrightarrow> all_sets w = []"
    by (simp add: all_sets_def)
  let ?w = "w\<lparr>total_volume :=
                     Some (py_round2 (foldl float_add (Finite 0) (map set_volume (all_sets w)))),
                   total_sets := Some (int (length (all_sets w))),
                   total_reps := Some (\<Sum>s\<leftarrow>all_sets w. reps s),
                   date := (if date w = None then Some now else date w),
                   likes := (if likes w = None then Some 0 else likes w)\<rparr>"
  have c: "compute_workout_metrics now w = Inr ?w"
    using r by (simp add: compute_workout_metrics_eq)
  have z: "exercises w = [] \<or> all_sets w = [] \<longrightarrow>
              total_sets ?w = Some 0 \<and> total_reps ?w = Some 0
              \<and> total_volume ?w = Some (Finite 0)"
    using e by (auto simp add: py_round2_0)
  have d: "date ?w = Some (case date w of None \<Rightarrow> now | Some d \<Rightarrow> d)"
    by (cases "date w") simp_all
  have l: "likes ?w = Some (case likes w of None \<Rightarrow> 0 | Some l \<Rightarrow> l)"
    by (cases "likes w") simp_all
  have t: "total_sets ?w = Some (int (length (all_sets w)))"
    "total_reps ?w = Some (\<Sum>s\<leftarrow>all_sets w. reps s)"
    "total_volume ?w
       = Some (py_round2 (foldl float_add (Finite 0) (map set_volume (all_sets w))))"
    "exercises ?w = exercises w" "user_id ?w = user_id w"
    by simp_all
  from c z d l t
  show "\<exists>w'. compute_workout_metrics now w = Inr w'
         \<and> total_sets w' = Some (int (length (all_sets w)))
         \<and> total_reps w' = Some (\<Sum>s\<leftarrow>all_sets w. reps s)
         \<and> total_volume w'
             = Some (py_round2 (foldl float_add (Finite 0) (map set_volume (all_sets w))))
         \<and> (exercises w = [] \<or> all_sets w = [] \<longrightarrow>
              total_sets w' = Some 0 \<and> total_reps w' = Some 0
              \<and> total_volume w' = Some (Finite 0))
         \<and> date w' = Some (case date w of None \<Rightarrow> now | Some d \<Rightarrow> d)
         \<and> likes w' = Some (case likes w of None \<Rightarrow> 0 | Some l \<Rightarrow> l)
         \<and> exercises w' = exercises w \<and> user_id w' = user_id w"
    by blast
next
  assume "\<not> list_all in_float_range (all_sets w)"
  then show "compute_workout_metrics now w = Inl OverflowError"
    by (simp add: compute_workout_metrics_eq)
qed

text \<open>
  Claim C1 as the specification has it, that the computation returns for every workout,
  fails on a body that passes validation: one set of \<open>10 ^ 400\<close> repetitions at 1 kg.
\<close>

theorem metrics_overflow_counterexample:
  "valid_workout huge_reps_workout
   \<and> compute_workout_metrics 7 huge_reps_workout = Inl OverflowError"
proof -
  have "\<not> list_all in_float_range (all_sets huge_reps_workout)"
    unfolding all_sets_huge_reps_workout using not_in_float_range_huge by simp
  then have "compute_workout_metrics 7 huge_reps_workout = Inl OverflowError"
    by (simp only: compute_workout_metrics_eq if_False)
  with valid_huge_reps_workout show ?thesis by simp
qed

theorem metrics_totals_witness:
  "list_all in_float_range (all_sets rest_day)
   \<and> (\<exists>w'. compute_workout_metrics 7 rest_day = Inr w'
         \<and> total_sets w' = Some 0 \<and> total_reps w' = Some 0
         \<and> total_volume w' = Some (Finite 0)
         \<and> date w' = Some 1000 \<and> likes w' = Some 2)
   \<and> list_all in_float_range (all_sets bench_workout)
   \<and> (\<exists>w'. compute_workout_metrics 7 bench_workout = Inr w'
         \<and> total_sets w' = Some 2 \<and> total_reps w' = Some 10
         \<and> total_volume w' = Some (Finite 1000)
         \<and> date w' = Some 7 \<and> likes w' = Some 0)
   \<and> list_all in_float_range (all_sets curl_workout)
   \<and> (\<exists>w'. compute_workout_metrics 7 curl_workout = Inr w'
         \<and> total_sets w' = Some 1 \<and> total_reps w' = Some 3
         \<and> total_volume w' = Some (Finite (2206763817411543 / 4503599627370496)))"
proof -
  have c: "date rest_day = Some 1000" "likes rest_day = Some 2"
    "date bench_workout = None" "likes bench_workout = None"
    by (simp_all add: rest_day_def bench_workout_def)
  have r: "list_all in_float_range (all_sets rest_day)"
    by (simp add: all_sets_rest_day)
  have b: "list_all in_float_range (all_sets bench_workout)"
    by (simp add: all_sets_bench_workout in_float_range_bench)
  have u: "list_all in_float_range (all_sets curl_workout)"
    by (simp add: all_sets_curl_workout in_float_range_curl)
  from r metrics_totals [of rest_day 7]
  obtain w1 where 1: "compute_workout_metrics 7 rest_day = Inr w1"
    "total_sets w1 = Some (int (length (all_sets rest_day)))"
    "total_reps w1 = Some (\<Sum>s\<leftarrow>all_sets rest_day. reps s)"
    "total_volume w1
       = Some (py_round2 (foldl float_add (Finite 0) (map set_volume (all_sets rest_day))))"
    "date w1 = Some (case date rest_day of None \<Rightarrow> 7 | Some d \<Rightarrow> d)"
    "likes w1 = Some (case likes rest_day of None \<Rightarrow> 0 | Some l \<Rightarrow> l)"
    by blast
  from b metrics_totals [of bench_workout 7]
  obtain w2 where 2: "compute_workout_metrics 7 bench_workout = Inr w2"
    "total_sets w2 = Some (int (length (all_sets bench_workout)))"
    "total_reps w2 = Some (\<Sum>s\<leftarrow>all_sets bench_workout. reps s)"
    "total_volume w2
       = Some (py_round2 (foldl float_add (Finite 0) (map set_volume (all_sets bench_workout))))"
    "date w2 = Some (case date bench_workout of None \<Rightarrow> 7 | Some d \<Rightarrow> d)"
    "likes w2 = Some (case likes bench_workout of None \<Rightarrow> 0 | Some l \<Rightarrow> l)"
    by blast
  from u metrics_totals [of curl_workout 7]
  obtain w3 where 3: "compute_workout_metrics 7 curl_workout = Inr w3"
    "total_sets w3 = Some (int (length (all_sets curl_workout)))"
    "total_reps w3 = Some (\<Sum>s\<leftarrow>all_sets curl_workout. reps s)"
    "total_volume w3
       = Some (py_round2 (foldl float_add (Finite 0) (map set_volume (all_sets curl_workout))))"
    by blast
  have a1: "total_sets w1 = Some 0" "total_reps w1 = Some 0"
    "total_volume w1 = Some (Finite 0)" "date w1 = Some 1000" "likes w1 = Some 2"
    using 1 by (simp_all add: all_sets_rest_day c py_round2_0)
  have a2: "total_sets w2 = Some 2" "total_reps w2 = Some 10"
    "total_volume w2 = Some (Finite 1000)" "date w2 = Some 7" "likes w2 = Some 0"
    using 2 by (simp_all add: all_sets_bench_workout c set_volume_bench volume_bench)
  have a3: "total_sets w3 = Some 1" "total_reps w3 = Some 3"
    "total_volume w3 = Some (Finite (2206763817411543 / 4503599627370496))"
    using 3 by (simp_all add: all_sets_curl_workout set_volume_curl volume_curl)
  from r b u 1(1) a1 2(1) a2 3(1) a3 show ?thesis by blast
qed

text \<open>
  Claim C8. The metrics computation is idempotent on a workout whose date is given: when
  it returns, computing a second time on what it returned, at any later moment, returns
  again, and changes neither the three totals nor anything else of the workout.
\<close>

theorem metrics_idempotent:
  "date w \<noteq> None \<and> compute_workout_metrics n1 w = Inr w1 \<longrightarrow>
     (\<exists>w2. compute_workout_metrics n2 w1 = Inr w2
        \<and> total_volume w2 = total_volume w1
        \<and> total_sets w2 = total_sets w1
        \<and> total_reps w2 = total_reps w1
        \<and> w2 = w1)"
proof
  assume a: "date w \<noteq> None \<and> compute_workout_metrics n1 w = Inr w1"
  then have d: "date w \<noteq> None" and c: "compute_workout_metrics n1 w = Inr w1"
    by simp_all
  note r = compute_workout_metrics_Inr [OF c]
  let ?tv = "Some (py_round2 (foldl float_add (Finite 0) (map set_volume (all_sets w))))"
  let ?ts = "Some (int (length (all_sets w)))"
  let ?tr = "Some (\<Sum>s\<leftarrow>all_sets w. reps s)"
  have f: "exercises w1 = exercises w" "date w1 = date w" "likes w1 \<noteq> None"
    "total_volume w1 = ?tv" "total_sets w1 = ?ts" "total_reps w1 = ?tr"
    using d by (simp_all add: r(2))
  have s: "all_sets w1 = all_sets w"
    using f(1) by (simp add: all_sets_def)
  have "compute_workout_metrics n2 w1
          = Inr (w1\<lparr>total_volume := ?tv, total_sets := ?ts, total_reps := ?tr,
                     date := (if date w1 = None then Some n2 else date w1),
                     likes := (if likes w1 = None then Some 0 else likes w1)\<rparr>)"
    unfolding compute_workout_metrics_eq [of n2 w1] s using r(1) by simp
  also have "\<dots> = Inr w1"
    using d f by simp
  finally have "compute_workout_metrics n2 w1 = Inr w1" .
  then show "\<exists>w2. compute_workout_metrics n2 w1 = Inr w2
        \<and> total_volume w2 = total_volume w1
        \<and> total_sets w2 = total_sets w1
        \<and> total_reps w2 = total_reps w1
        \<and> w2 = w1"
    by simp
qed

theorem metrics_idempotent_witness:
  "date curl_workout \<noteq> None
   \<and> (\<exists>w1. compute_workout_metrics 7 curl_workout = Inr w1
         \<and> compute_workout_metrics 9 w1 = Inr w1
         \<and> total_volume w1 = Some (Finite (2206763817411543 / 4503599627370496))
         \<and> total_sets w1 = Some 1
         \<and> total_reps w1 = Some 3)"
proof -
  have d: "date curl_workout \<noteq> None" by (simp add: curl_workout_def)
  have u: "list_all in_float_range (all_sets curl_workout)"
    by (simp add: all_sets_curl_workout in_float_range_curl)
  then obtain w1 where c: "compute_workout_metrics 7 curl_workout = Inr w1"
    by (simp add: compute_workout_metrics_eq)
  note r = compute_workout_metrics_Inr(2) [OF c]
  have t: "total_volume w1 = Some (Finite (2206763817411543 / 4503599627370496))"
      "total_sets w1 = Some 1" "total_reps w1 = Some 3"
    by (subst r, simp add: all_sets_curl_workout set_volume_curl volume_curl)+
  from d c metrics_idempotent [of curl_workout 7 w1 9]
  have "compute_workout_metrics 9 w1 = Inr w1" by simp
  with d c t show ?thesis by simp
qed

lemma length_le_sum_list:
  "\<forall>x\<in>set xs. (1::int) \<le> x \<Longrightarrow>
     int (length xs) \<le> sum_list xs \<and> (int (length xs) = sum_list xs \<longleftrightarrow> (\<forall>x\<in>set xs. x = 1))"
proof (induction xs)
  case Nil
  then show ?case by simp
next
  case (Cons x xs)
  then have "1 \<le> x" and ih: "int (length xs) \<le> sum_list xs"
    "int (length xs) = sum_list xs \<longleftrightarrow> (\<forall>x\<in>set xs. x = 1)"
    by simp_all
  then show ?case by auto
qed

text \<open>
  Claim C10. When every set of a workout has at least one repetition, as the schema
  requires, the \<open>total_reps\<close> that the metrics computation returns is at least the
  \<open>total_sets\<close> it returns, and the two are equal exactly when every set has one
  repetition.
\<close>

theorem reps_ge_sets:
  assumes "\<forall>s\<in>set (all_sets w). 1 \<le> reps s"
    and "compute_workout_metrics now w = Inr w'"
  shows "\<exists>ts tr. total_sets w' = Some ts
           \<and> total_reps w' = Some tr
           \<and> ts \<le> tr
           \<and> (tr = ts \<longleftrightarrow> (\<forall>s\<in>set (all_sets w). reps s = 1))"
proof -
  have "\<forall>x\<in>set (map reps (all_sets w)). 1 \<le> x"
    using assms(1) by simp
  from length_le_sum_list [OF this]
  have i: "int (length (all_sets w)) \<le> (\<Sum>s\<leftarrow>all_sets w. reps s)"
    and e: "int (length (all_sets w)) = (\<Sum>s\<leftarrow>all_sets w. reps s)
           \<longleftrightarrow> (\<forall>s\<in>set (all_sets w). reps s = 1)"
    by simp_all
  have t: "total_sets w' = Some (int (length (all_sets w)))"
    "total_reps w' = Some (\<Sum>s\<leftarrow>all_sets w. reps s)"
    by (subst compute_workout_metrics_Inr(2) [OF assms(2)], simp)+
  from i e t show ?thesis by auto
qed

theorem reps_ge_sets_witness:
  "list_all (\<lambda>s. 1 \<le> reps s) (all_sets bench_workout)
   \<and> (\<exists>w'. compute_workout_metrics 7 bench_workout = Inr w'
         \<and> total_sets w' = Some 2
         \<and> total_reps w' = Some 10
         \<and> (\<exists>ts tr. total_sets w' = Some ts
               \<and> total_reps w' = Some tr
               \<and> ts \<le> tr
               \<and> (tr = ts \<longleftrightarrow> (\<forall>s\<in>set (all_sets bench_workout). reps s = 1))))"
proof -
  have h: "\<forall>s\<in>set (all_sets bench_workout). 1 \<le> reps s"
    by (simp add: all_sets_bench_workout)
  have l: "list_all (\<lambda>s. 1 \<le> reps s) (all_sets bench_workout)"
    by (simp add: all_sets_bench_workout)
  have b: "list_all in_float_range (all_sets bench_workout)"
    by (simp add: all_sets_bench_workout in_float_range_bench)
  then obtain w' where c: "compute_workout_metrics 7 bench_workout = Inr w'"
    by (simp add: compute_workout_metrics_eq)
  have t: "total_sets w' = Some 2" "total_reps w' = Some 10"
    by (subst compute_workout_metrics_Inr(2) [OF c], simp add: all_sets_bench_workout)+
  show ?thesis
    using l c t reps_ge_sets [OF h c] by blast
qed

section \<open>Properties of the handlers\<close>

lemma create_user_raises:
  "create_user db new_id payload = (Inl InternalServerError, db)"
  by (cases db)
    (simp_all add: create_user_def db_bool_def create_document_unconfigured_def Let_def)

text \<open>
  Claim C3. Creating a user whose username is already that of a stored user should fail
  with status 400, and any other creation should insert the user. The handler does
  neither on a configured database: the truth test of \<open>db\<close> raises before the search, so
  the request for \<open>alice\<close> is answered with status 500 and the store is left as it was,
  both when \<open>alice\<close> is stored and when no user is.
\<close>

theorem create_user_truth_test:
  "find_one_username (users alice_store) (req_username alice_request) \<noteq> None
   \<and> create_user (Some alice_store) oid2 alice_request
       = (Inl InternalServerError, Some alice_store)
   \<and> find_one_username (users empty_store) (req_username alice_request) = None
   \<and> create_user (Some empty_store) oid1 alice_request
       = (Inl InternalServerError, Some empty_store)"
  by (simp add: create_user_def db_bool_def find_one_username_def alice_store_def
      empty_store_def alice_request_def User_def)

lemma valid_workout_sets:
  "valid_workout p \<Longrightarrow> ex \<in> set (exercises p) \<Longrightarrow> st \<in> set (sets ex) \<Longrightarrow> valid_exercise_set st"
  by (simp add: valid_workout_def valid_workout_exercise_def list_all_iff)

lemma valid_exercise_set_bounds:
  "valid_exercise_set st \<Longrightarrow>
     \<not> (reps st < 1 \<or> weight st < Finite 0
        \<or> (\<exists>r. rest_sec st = Some r \<and> r < 0)
        \<or> (\<exists>r. rpe st = Some r \<and> (r < Finite 1 \<or> Finite 10 < r)))"
  by (auto simp add: valid_exercise_set_def dest: le_not_less_double)

lemma valid_workout_bounds:
  "valid_workout p \<Longrightarrow>
     \<not> ((\<exists>d. duration_min p = Some d \<and> d < 0) \<or> (\<exists>f. fatigue p = Some f \<and> (f < 1 \<or> 10 < f)))"
  by (auto simp add: valid_workout_def)

text \<open>
  Claim C5. A body for \<open>POST /api/workouts\<close> that violates a field constraint (a set
  with \<open>reps < 1\<close>, \<open>weight < 0\<close>, \<open>rest_sec < 0\<close> or an \<open>rpe\<close> outside 1 to 10, a
  \<open>duration_min < 0\<close>, a \<open>fatigue\<close> outside 1 to 10) is rejected with the validation
  error: the handler does not run, no metric is computed and the store is left as it was.
\<close>

theorem invalid_workout_rejected:
  assumes "(\<exists>ex\<in>set (exercises p). \<exists>st\<in>set (sets ex).
              reps st < 1 \<or> weight st < Finite 0
              \<or> (\<exists>r. rest_sec st = Some r \<and> r < 0)
              \<or> (\<exists>r. rpe st = Some r \<and> (r < Finite 1 \<or> Finite 10 < r)))
           \<or> (\<exists>d. duration_min p = Some d \<and> d < 0)
           \<or> (\<exists>f. fatigue p = Some f \<and> (f < 1 \<or> 10 < f))"
  shows "post_workouts s new_id now p = (Inl RequestValidationError, s)"
proof -
  have "\<not> valid_workout p"
  proof
    assume v: "valid_workout p"
    from assms consider
        (sets) ex st where "ex \<in> set (exercises p)" "st \<in> set (sets ex)"
          "reps st < 1 \<or> weight st < Finite 0
            \<or> (\<exists>r. rest_sec st = Some r \<and> r < 0)
            \<or> (\<exists>r. rpe st = Some r \<and> (r < Finite 1 \<or> Finite 10 < r))"
      | (workout) "(\<exists>d. duration_min p = Some d \<and> d < 0)
            \<or> (\<exists>f. fatigue p = Some f \<and> (f < 1 \<or> 10 < f))"
      by blast
    then show False
    proof cases
      case sets
      from sets(1,2) have "valid_exercise_set st"
        using v valid_workout_sets by blast
      with sets(3) show False
        using valid_exercise_set_bounds by blast
    next
      case workout
      then show False using valid_workout_bounds [OF v] by blast
    qed
  qed
  then show ?thesis
    by (simp add: post_workouts_def)
qed

theorem invalid_workout_rejected_witness:
  "post_workouts empty_store oid1 7 zero_reps_workout = (Inl RequestValidationError, empty_store)"
proof -
  have "\<exists>ex\<in>set (exercises zero_reps_workout). \<exists>st\<in>set (sets ex). reps st < 1"
    by (simp add: zero_reps_workout_def)
  then show ?thesis
    using invalid_workout_rejected [of zero_reps_workout empty_store oid1 7] by blast
qed

lemma compute_ignores_totals:
  "compute_workout_metrics now (p\<lparr>total_volume := tv, total_sets := ts, total_reps := tr\<rparr>)
     = compute_workout_metrics now p"
  by (simp add: compute_workout_metrics_eq all_sets_def)

lemma valid_rest_day:
  "valid_workout (rest_day\<lparr>total_volume := tv, total_sets := ts, total_reps := tr\<rparr>)
     \<longleftrightarrow> (case tv of None \<Rightarrow> True | Some v \<Rightarrow> Finite 0 \<le> v)
         \<and> (case ts of None \<Rightarrow> True | Some n \<Rightarrow> 0 \<le> n)
         \<and> (case tr of None \<Rightarrow> True | Some n \<Rightarrow> 0 \<le> n)"
  by (simp add: valid_workout_def valid_workout_exercise_def rest_day_def)

text \<open>
  Claim C6. Two bodies for the creation of a workout that differ only in the
  \<open>total_volume\<close>, \<open>total_sets\<close> and \<open>total_reps\<close> the client supplies give the same
  stored workout and the same response: the handler recomputes the three. The same holds
  of the route, for two bodies that pass validation.
\<close>

theorem create_workout_ignores_client_totals:
  "create_workout s new_id now (p\<lparr>total_volume := tv, total_sets := ts, total_reps := tr\<rparr>)
     = create_workout s new_id now p
   \<and> (valid_workout p \<and> valid_workout (p\<lparr>total_volume := tv, total_sets := ts, total_reps := tr\<rparr>)
        \<longrightarrow> post_workouts s new_id now (p\<lparr>total_volume := tv, total_sets := ts, total_reps := tr\<rparr>)
              = post_workouts s new_id now p)"
  by (simp add: create_workout_def post_workouts_def compute_ignores_totals)

theorem create_workout_ignores_client_totals_witness:
  "valid_workout rest_day
   \<and> valid_workout
        (rest_day\<lparr>total_volume := Some (Finite 99), total_sets := None, total_reps := Some 1\<rparr>)
   \<and> post_workouts empty_store oid1 7
        (rest_day\<lparr>total_volume := Some (Finite 99), total_sets := None, total_reps := Some 1\<rparr>)
       = post_workouts empty_store oid1 7 rest_day
   \<and> fst (post_workouts empty_store oid1 7 rest_day)
       = Inr (''000000000000000000000001'', Some (Finite 0))"
proof -
  have v: "valid_workout rest_day"
    by (simp add: valid_workout_def valid_workout_exercise_def rest_day_def less_eq_double_def)
  have v': "valid_workout
     (rest_day\<lparr>total_volume := Some (Finite 99), total_sets := None, total_reps := Some 1\<rparr>)"
    by (simp add: valid_rest_day less_eq_double_def)
  have r: "fst (post_workouts empty_store oid1 7 rest_day)
        = Inr (''000000000000000000000001'', Some (Finite 0))"
    using v by (simp add: post_workouts_def create_workout_def create_document_def
        compute_workout_metrics_eq all_sets_rest_day py_round2_0 oid1_def json_compliant_def
        isfinite_def)
  show ?thesis
    using v v' r create_workout_ignores_client_totals
      [where s = empty_store and new_id = oid1 and now = 7 and p = rest_day
         and tv = "Some (Finite 99)" and ts = None and tr = "Some 1"]
    by blast
qed

end
